theory Spec2Isabelle
  imports Complex_Main "HOL-Library.Word" "HOL-Library.Multiset" "HOL-Library.AList"
    "HOL-Library.Char_ord"
begin

unbundle bit_operations_syntax

section \<open>Metric samples shared by the collectors\<close>

text \<open>
  A descriptor is built in the source by
  \<open>prometheus.NewDesc(prometheus.BuildFQName(Namespace, subsystem, name), help, labels, nil)\<close>.
  The constant \<open>Namespace\<close> is the same for every collector, so a descriptor is identified
  here by its subsystem and its name. A sample is what \<open>prometheus.MustNewConstMetric\<close>
  receives: descriptor, value type, value and label values. Sample values are \<open>float64\<close> in
  the source and reals here; no property below depends on rounding.
\<close>

datatype Desc = NewDesc string string

datatype ValueType = CounterValue | GaugeValue

datatype Metric =
  MustNewConstMetric (desc: Desc) (valueType: ValueType) (sample: real) (labelValues: "string list")

text \<open>An \<open>error\<close> value of Go carries a message.\<close>

datatype error = Err string

type_synonym uint64 = "64 word"

text \<open>\<open>float64(x)\<close> of a \<open>uint64\<close>, without the rounding.\<close>

definition float64 :: "uint64 \<Rightarrow> real" where
  "float64 x = real (unat x)"

section \<open>The SMART attribute decoder (collector/smart.go)\<close>

type_synonym uint8 = "8 word"

text \<open>Indexing a slice out of range is a run-time panic in Go.\<close>

datatype panic = IndexOutOfRange

definition byte_at :: "uint8 list \<Rightarrow> nat \<Rightarrow> panic + uint8" where
  "byte_at vs i = (if i < length vs then Inr (vs ! i) else Inl IndexOutOfRange)"

definition bindp :: "panic + 'a \<Rightarrow> ('a \<Rightarrow> panic + 'b) \<Rightarrow> panic + 'b" where
  "bindp m f = (case m of Inl p \<Rightarrow> Inl p | Inr x \<Rightarrow> f x)"

text \<open>
  The variables of one disk that the record loop of \<open>SMARTCollector.collect\<close> assigns
  (lines 117 to 153 of smart.go). They all start at zero.
\<close>

record smart_vars =
  rawreaderror :: int
  attrcriterror :: int
  hddattrcriterror :: int
  dmacrcerror :: int
  softreaderror :: int
  programfailcount :: int
  erasefailcount :: int
  programfailcount2 :: int
  erasefailcount2 :: int
  spinavg :: int
  reallocatedsectors :: int
  spinretry :: int
  reserveblocks :: int
  endtoend :: int
  commandtimeout :: int
  lifetimeremain :: int
  lbawrite :: int
  reallocationevent :: int
  pendingsectors :: int
  uncorrectablesectors :: int
  temperature :: int
  tempmax :: int
  tempmin :: int
  poh :: real

definition smart_vars0 :: smart_vars where
  "smart_vars0 = \<lparr> rawreaderror = 0, attrcriterror = 0, hddattrcriterror = 0,
     dmacrcerror = 0, softreaderror = 0, programfailcount = 0, erasefailcount = 0,
     programfailcount2 = 0, erasefailcount2 = 0, spinavg = 0, reallocatedsectors = 0,
     spinretry = 0, reserveblocks = 0, endtoend = 0, commandtimeout = 0,
     lifetimeremain = 0, lbawrite = 0, reallocationevent = 0, pendingsectors = 0,
     uncorrectablesectors = 0, temperature = 0, tempmax = 0, tempmin = 0, poh = 0 \<rparr>"

text \<open>\<open>poharg := "hour"\<close>, a local constant of \<open>collect\<close> (line 85).\<close>

definition poharg :: string where
  "poharg = ''hour''"

text \<open>
  The raw value \<open>vendec\<close> (lines 179 to 191). In Go the operator \<open>^\<close> is bitwise
  exclusive or, so \<open>16^8\<close> is \<open>16 XOR 8\<close>; the model keeps the operator the source uses.
  \<open>int(b)\<close> of a \<open>uint8\<close> is \<open>uint b\<close>.
\<close>

definition vendec :: "uint8 \<Rightarrow> uint8 \<Rightarrow> uint8 \<Rightarrow> uint8 \<Rightarrow> uint8 \<Rightarrow> uint8 \<Rightarrow> int" where
  "vendec i3 i8 i9 i10 i11 i12 =
     (if i3 = 4 \<or> i3 = 9 \<or> i3 = 193 \<or> i3 = 195 \<or> i3 = 200 \<or> i3 = 225 \<or> i3 = 241
         \<or> i3 = 242 \<or> i3 = 246
      then uint i12 * (16 XOR 8) + uint i11 * (16 XOR 6) + uint i10 * (16 XOR 4)
           + uint i9 * (16 XOR 2) + uint i8
      else if i3 = 194 then uint i8
      else uint i9 * (16 XOR 2) + uint i8)"

text \<open>\<open>if b { n = n + 1 }\<close>\<close>

definition bump :: "bool \<Rightarrow> int \<Rightarrow> int" where
  "bump b n = (if b then n + 1 else n)"

text \<open>The second \<open>switch i3\<close> (lines 193 to 418): what each attribute id assigns.\<close>

definition smart_switch ::
  "uint8 \<Rightarrow> uint8 \<Rightarrow> uint8 \<Rightarrow> uint8 \<Rightarrow> uint8 \<Rightarrow> uint8 \<Rightarrow> int \<Rightarrow> smart_vars \<Rightarrow> smart_vars" where
  "smart_switch i3 i6 i7 i10 i11 i12 vd s =
    (if i3 = 1 then
       s\<lparr> rawreaderror := vd, attrcriterror := bump (i6 \<le> 50 \<or> i7 \<le> 50) (attrcriterror s) \<rparr>
     else if i3 = 3 then
       s\<lparr> spinavg := uint i11 * (16 XOR 2) + uint i10,
          attrcriterror := bump (i6 \<le> 50 \<or> i7 \<le> 50) (attrcriterror s) \<rparr>
     else if i3 = 5 then
       s\<lparr> reallocatedsectors := vd,
          hddattrcriterror := bump (vd > 0) (hddattrcriterror s),
          attrcriterror := bump (i6 \<le> 10 \<or> i7 \<le> 10) (attrcriterror s) \<rparr>
     else if i3 = 7 then
       s\<lparr> attrcriterror := bump (i6 \<le> 60 \<or> i7 \<le> 60) (attrcriterror s) \<rparr>
     else if i3 = 9 then
       s\<lparr> poh := (if poharg = ''min'' then real_of_int vd / 60
                  else if poharg = ''sec'' then real_of_int vd / 3600
                  else real_of_int vd) \<rparr>
     else if i3 = 10 then
       s\<lparr> spinretry := vd, attrcriterror := bump (vd > 0) (attrcriterror s) \<rparr>
     else if i3 = 170 then
       s\<lparr> attrcriterror := bump (i6 \<le> 10 \<or> i7 \<le> 10) (attrcriterror s),
          reserveblocks := vd \<rparr>
     else if i3 = 171 then
       s\<lparr> programfailcount := vd,
          hddattrcriterror := bump (vd > 0) (hddattrcriterror s),
          attrcriterror := bump (i6 \<le> 10 \<or> i7 \<le> 10) (attrcriterror s) \<rparr>
     else if i3 = 172 then
       s\<lparr> erasefailcount := vd,
          hddattrcriterror := bump (vd > 0) (hddattrcriterror s),
          attrcriterror := bump (i6 \<le> 10 \<or> i7 \<le> 10) (attrcriterror s) \<rparr>
     else if i3 = 173 \<or> i3 = 177 \<or> i3 = 179 then
       s\<lparr> attrcriterror := bump (i6 \<le> 10 \<or> i7 \<le> 10) (attrcriterror s) \<rparr>
     else if i3 = 180 then
       s\<lparr> reserveblocks := vd \<rparr>
     else if i3 = 181 then
       s\<lparr> programfailcount2 := vd,
          hddattrcriterror := bump (vd > 0) (hddattrcriterror s),
          attrcriterror := bump (i6 \<le> 10 \<or> i7 \<le> 10) (attrcriterror s) \<rparr>
     else if i3 = 182 then
       s\<lparr> erasefailcount2 := vd,
          hddattrcriterror := bump (vd > 0) (hddattrcriterror s),
          attrcriterror := bump (i6 \<le> 10 \<or> i7 \<le> 10) (attrcriterror s) \<rparr>
     else if i3 = 183 then
       s\<lparr> attrcriterror := bump (i6 \<le> 10 \<or> i7 \<le> 10) (attrcriterror s) \<rparr>
     else if i3 = 184 then
       s\<lparr> endtoend := vd,
          attrcriterror := bump (i6 \<le> 50 \<or> i7 \<le> 50) (bump (vd > 0) (attrcriterror s)) \<rparr>
     else if i3 = 188 then
       s\<lparr> commandtimeout := vd, attrcriterror := bump (vd > 0) (attrcriterror s) \<rparr>
     else if i3 = 194 then
       s\<lparr> temperature := vd, tempmin := uint i10, tempmax := uint i12 \<rparr>
     else if i3 = 196 then
       s\<lparr> reallocationevent := vd, hddattrcriterror := bump (vd > 0) (hddattrcriterror s) \<rparr>
     else if i3 = 197 then
       s\<lparr> pendingsectors := vd, attrcriterror := bump (vd > 0) (attrcriterror s) \<rparr>
     else if i3 = 198 then
       s\<lparr> uncorrectablesectors := vd, attrcriterror := bump (vd > 0) (attrcriterror s) \<rparr>
     else if i3 = 199 then
       s\<lparr> dmacrcerror := vd, attrcriterror := bump (vd > 0) (attrcriterror s) \<rparr>
     else if i3 = 200 then
       s\<lparr> attrcriterror := bump (i6 \<le> 99 \<or> i7 \<le> 99) (attrcriterror s) \<rparr>
     else if i3 = 201 then
       s\<lparr> softreaderror := vd, attrcriterror := bump (vd > 0) (attrcriterror s) \<rparr>
     else if i3 = 202 then
       s\<lparr> lifetimeremain := uint i6,
          attrcriterror := bump (i6 \<le> 10 \<or> i7 \<le> 10) (attrcriterror s) \<rparr>
     else if i3 = 225 then
       s\<lparr> lbawrite := vd \<rparr>
     else if i3 = 226 then
       s\<lparr> attrcriterror := bump (i6 \<le> 10 \<or> i7 \<le> 10) (attrcriterror s) \<rparr>
     else if i3 = 230 then
       s\<lparr> attrcriterror := bump (i7 \<le> 90) (attrcriterror s) \<rparr>
     else if i3 = 231 then
       s\<lparr> lifetimeremain := uint i6,
          attrcriterror := bump (i6 \<le> 10 \<or> i7 \<le> 10) (attrcriterror s) \<rparr>
     else if i3 = 232 then
       s\<lparr> attrcriterror := bump (i6 \<le> 10 \<or> i7 \<le> 10) (attrcriterror s) \<rparr>
     else if i3 = 233 then
       s\<lparr> lifetimeremain := uint i6,
          attrcriterror := bump (i6 \<le> 10 \<or> i7 \<le> 10) (attrcriterror s) \<rparr>
     else if i3 = 241 \<or> i3 = 246 then
       s\<lparr> lbawrite := vd \<rparr>
     else s)"

text \<open>
  One turn of the loop \<open>for i := 0; i < len(disk.VendorSpecific); i += 12\<close> (lines 155 to
  421), entered with \<open>i < len\<close>. Every slice read goes through \<open>byte_at\<close>, in the order of
  the source, so a read that the source's length checks do not cover is a panic of the
  model too. \<open>Break\<close> leaves the loop, \<open>Next\<close> goes on with \<open>i + 12\<close> (the end of the body
  and \<open>continue\<close> alike).
\<close>

datatype loop_ctl = Break | Next

definition smart_raw :: "uint8 list \<Rightarrow> nat \<Rightarrow> panic + (uint8 \<times> uint8 \<times> uint8 \<times> uint8 \<times> uint8)" where
  "smart_raw vs i =
     (if length vs \<ge> i + 12 then
        bindp (byte_at vs (i + 8)) (\<lambda>i8.
        bindp (byte_at vs (i + 9)) (\<lambda>i9.
        bindp (byte_at vs (i + 10)) (\<lambda>i10.
        bindp (byte_at vs (i + 11)) (\<lambda>i11.
        bindp (byte_at vs (i + 12)) (\<lambda>i12.
        Inr (i8, i9, i10, i11, i12))))))
      else Inr (0, 0, 0, 0, 0))"

definition smart_body :: "uint8 list \<Rightarrow> nat \<Rightarrow> smart_vars \<Rightarrow> panic + (loop_ctl \<times> smart_vars)" where
  "smart_body vs i s =
     bindp (byte_at vs i) (\<lambda>v.
     if v = 0 \<or> v = 16 then
       if length vs < i + 7 then Inr (Break, s)
       else
         bindp (byte_at vs (i + 1)) (\<lambda>v.
         if v \<noteq> 0 then Inr (Next, s)
         else
           bindp (byte_at vs (i + 3)) (\<lambda>i3.
           bindp (byte_at vs (i + 6)) (\<lambda>i6.
           bindp (byte_at vs (i + 7)) (\<lambda>i7.
           bindp (smart_raw vs i) (\<lambda>(i8, i9, i10, i11, i12).
           Inr (Next, smart_switch i3 i6 i7 i10 i11 i12 (vendec i3 i8 i9 i10 i11 i12) s))))))
     else Inr (Next, s))"

function smart_loop :: "uint8 list \<Rightarrow> nat \<Rightarrow> smart_vars \<Rightarrow> panic + smart_vars" where
  "smart_loop vs i s =
     (if i < length vs then
        (case smart_body vs i s of
           Inl p \<Rightarrow> Inl p
         | Inr (Break, s') \<Rightarrow> Inr s'
         | Inr (Next, s') \<Rightarrow> smart_loop vs (i + 12) s')
      else Inr s)"
  by pat_completeness auto
termination
  by (relation "measure (\<lambda>(vs, i, s). length vs - i)") auto

text \<open>The decoder on one disk's \<open>VendorSpecific\<close> bytes.\<close>

definition smart_decode :: "uint8 list \<Rightarrow> panic + smart_vars" where
  "smart_decode vs = smart_loop vs 0 smart_vars0"

subsection \<open>The collector\<close>








section \<open>The DFSR collector (collector/dfsr.go)\<close>

subsection \<open>Descriptors\<close>

text \<open>
  The descriptor fields of \<open>DFSRCollector\<close>, as \<open>NewDFSRCollector\<close> sets them (subsystem
  \<open>dfsr\<close>). They never change after construction, so they are constants here.
\<close>

definition dfsrScrapeDurationDesc :: Desc where
  "dfsrScrapeDurationDesc = NewDesc ''dfsr'' ''collector_duration_seconds''"

definition dfsrScrapeSuccessDesc :: Desc where
  "dfsrScrapeSuccessDesc = NewDesc ''dfsr'' ''collector_success''"

definition ConnectionBandwidthSavingsUsingDFSReplicationTotal :: Desc where
  "ConnectionBandwidthSavingsUsingDFSReplicationTotal = NewDesc ''dfsr'' ''bandwidth_savings_using_dfs_replication_total''"

definition ConnectionBytesReceivedTotal :: Desc where
  "ConnectionBytesReceivedTotal = NewDesc ''dfsr'' ''bytes_received_total''"

definition ConnectionCompressedSizeOfFilesReceivedTotal :: Desc where
  "ConnectionCompressedSizeOfFilesReceivedTotal = NewDesc ''dfsr'' ''compressed_size_of_files_received_total''"

definition ConnectionFilesReceivedTotal :: Desc where
  "ConnectionFilesReceivedTotal = NewDesc ''dfsr'' ''files_received_total''"

definition ConnectionRDCBytesReceivedTotal :: Desc where
  "ConnectionRDCBytesReceivedTotal = NewDesc ''dfsr'' ''rdc_bytes_received_total''"

definition ConnectionRDCCompressedSizeOfFilesReceivedTotal :: Desc where
  "ConnectionRDCCompressedSizeOfFilesReceivedTotal = NewDesc ''dfsr'' ''rdc_compressed_size_of_files_received_total''"

definition ConnectionRDCNumberofFilesReceivedTotal :: Desc where
  "ConnectionRDCNumberofFilesReceivedTotal = NewDesc ''dfsr'' ''rdc_number_of_files_received_total''"

definition ConnectionRDCSizeOfFilesReceivedTotal :: Desc where
  "ConnectionRDCSizeOfFilesReceivedTotal = NewDesc ''dfsr'' ''rdc_size_of_files_received_total''"

definition ConnectionSizeOfFilesReceivedTotal :: Desc where
  "ConnectionSizeOfFilesReceivedTotal = NewDesc ''dfsr'' ''size_of_files_received_total''"

definition FolderBandwidthSavingsUsingDFSReplicationTotal :: Desc where
  "FolderBandwidthSavingsUsingDFSReplicationTotal = NewDesc ''dfsr'' ''bandwidth_savings_using_dfs_replication_total''"

definition FolderCompressedSizeOfFilesReceivedTotal :: Desc where
  "FolderCompressedSizeOfFilesReceivedTotal = NewDesc ''dfsr'' ''compressed_size_of_files_received_total''"

definition FolderConflictBytesCleanedupTotal :: Desc where
  "FolderConflictBytesCleanedupTotal = NewDesc ''dfsr'' ''conflict_bytes_cleaned_up_total''"

definition FolderConflictBytesGeneratedTotal :: Desc where
  "FolderConflictBytesGeneratedTotal = NewDesc ''dfsr'' ''conflict_bytes_generated_total''"

definition FolderConflictFilesCleanedUpTotal :: Desc where
  "FolderConflictFilesCleanedUpTotal = NewDesc ''dfsr'' ''conflict_files_cleaned_up_total''"

definition FolderConflictFilesGeneratedTotal :: Desc where
  "FolderConflictFilesGeneratedTotal = NewDesc ''dfsr'' ''conflict_files_generated_total''"

definition FolderConflictFolderCleanupsCompletedTotal :: Desc where
  "FolderConflictFolderCleanupsCompletedTotal = NewDesc ''dfsr'' ''conflict_folder_cleanups_total''"

definition FolderConflictSpaceInUse :: Desc where
  "FolderConflictSpaceInUse = NewDesc ''dfsr'' ''conflict_space_in_use''"

definition FolderDeletedSpaceInUse :: Desc where
  "FolderDeletedSpaceInUse = NewDesc ''dfsr'' ''deleted_space_in_use''"

definition FolderDeletedBytesCleanedUpTotal :: Desc where
  "FolderDeletedBytesCleanedUpTotal = NewDesc ''dfsr'' ''deleted_bytes_cleaned_up_total''"

definition FolderDeletedBytesGeneratedTotal :: Desc where
  "FolderDeletedBytesGeneratedTotal = NewDesc ''dfsr'' ''deleted_bytes_generated_total''"

definition FolderDeletedFilesCleanedUpTotal :: Desc where
  "FolderDeletedFilesCleanedUpTotal = NewDesc ''dfsr'' ''deleted_files_cleaned_up_total''"

definition FolderDeletedFilesGeneratedTotal :: Desc where
  "FolderDeletedFilesGeneratedTotal = NewDesc ''dfsr'' ''deleted_files_generated_total''"

definition FolderFileInstallsRetriedTotal :: Desc where
  "FolderFileInstallsRetriedTotal = NewDesc ''dfsr'' ''file_installs_retried_total''"

definition FolderFileInstallsSucceededTotal :: Desc where
  "FolderFileInstallsSucceededTotal = NewDesc ''dfsr'' ''file_installs_succeeded_total''"

definition FolderFilesReceivedTotal :: Desc where
  "FolderFilesReceivedTotal = NewDesc ''dfsr'' ''files_received_total''"

definition FolderRDCBytesReceivedTotal :: Desc where
  "FolderRDCBytesReceivedTotal = NewDesc ''dfsr'' ''rdc_bytes_received_total''"

definition FolderRDCCompressedSizeOfFilesReceivedTotal :: Desc where
  "FolderRDCCompressedSizeOfFilesReceivedTotal = NewDesc ''dfsr'' ''rdc_compressed_size_of_files_received_total''"

definition FolderRDCNumberofFilesReceivedTotal :: Desc where
  "FolderRDCNumberofFilesReceivedTotal = NewDesc ''dfsr'' ''rdc_number_of_files_received_total''"

definition FolderRDCSizeOfFilesReceivedTotal :: Desc where
  "FolderRDCSizeOfFilesReceivedTotal = NewDesc ''dfsr'' ''rdc_size_of_files_received_total''"

definition FolderSizeOfFilesReceivedTotal :: Desc where
  "FolderSizeOfFilesReceivedTotal = NewDesc ''dfsr'' ''size_of_files_received_total''"

definition FolderStagingSpaceInUse :: Desc where
  "FolderStagingSpaceInUse = NewDesc ''dfsr'' ''staging_space_in_use''"

definition FolderStagingBytesCleanedUpTotal :: Desc where
  "FolderStagingBytesCleanedUpTotal = NewDesc ''dfsr'' ''staging_bytes_cleaned_up_total''"

definition FolderStagingBytesGeneratedTotal :: Desc where
  "FolderStagingBytesGeneratedTotal = NewDesc ''dfsr'' ''staging_bytes_generated_total''"

definition FolderStagingFilesCleanedUpTotal :: Desc where
  "FolderStagingFilesCleanedUpTotal = NewDesc ''dfsr'' ''staging_files_cleaned_up_total''"

definition FolderStagingFilesGeneratedTotal :: Desc where
  "FolderStagingFilesGeneratedTotal = NewDesc ''dfsr'' ''staging_files_generated_total''"

definition FolderUpdatesDroppedTotal :: Desc where
  "FolderUpdatesDroppedTotal = NewDesc ''dfsr'' ''updates_dropped_total''"

definition VolumeDatabaseCommitsTotal :: Desc where
  "VolumeDatabaseCommitsTotal = NewDesc ''dfsr'' ''database_commits_total''"

definition VolumeDatabaseLookupsTotal :: Desc where
  "VolumeDatabaseLookupsTotal = NewDesc ''dfsr'' ''database_lookups_total''"

definition VolumeUSNJournalUnreadPercentage :: Desc where
  "VolumeUSNJournalUnreadPercentage = NewDesc ''dfsr'' ''usn_journal_unread_percentage''"

definition VolumeUSNJournalRecordsAcceptedTotal :: Desc where
  "VolumeUSNJournalRecordsAcceptedTotal = NewDesc ''dfsr'' ''usn_journal_records_accepted_total''"

definition VolumeUSNJournalRecordsReadTotal :: Desc where
  "VolumeUSNJournalRecordsReadTotal = NewDesc ''dfsr'' ''usn_journal_records_read_total''"

subsection \<open>Perflib rows\<close>

text \<open>
  The three row types that \<open>unmarshalObject\<close> fills, one field for each \<open>float64\<close> counter.
\<close>

record PerflibDFSRConnection =
  Name :: string
  BandwidthSavingsUsingDFSReplicationTotal :: real
  BytesReceivedTotal :: real
  CompressedSizeOfFilesReceivedTotal :: real
  FilesReceivedTotal :: real
  RDCBytesReceivedTotal :: real
  RDCCompressedSizeOfFilesReceivedTotal :: real
  RDCNumberofFilesReceivedTotal :: real
  RDCSizeOfFilesReceivedTotal :: real
  SizeOfFilesReceivedTotal :: real

record PerflibDFSRFolder =
  Name :: string
  BandwidthSavingsUsingDFSReplicationTotal :: real
  CompressedSizeOfFilesReceivedTotal :: real
  ConflictBytesCleanedupTotal :: real
  ConflictBytesGeneratedTotal :: real
  ConflictFilesCleanedUpTotal :: real
  ConflictFilesGeneratedTotal :: real
  ConflictFolderCleanupsCompletedTotal :: real
  ConflictSpaceInUse :: real
  DeletedSpaceInUse :: real
  DeletedBytesCleanedUpTotal :: real
  DeletedBytesGeneratedTotal :: real
  DeletedFilesCleanedUpTotal :: real
  DeletedFilesGeneratedTotal :: real
  FileInstallsRetriedTotal :: real
  FileInstallsSucceededTotal :: real
  FilesReceivedTotal :: real
  RDCBytesReceivedTotal :: real
  RDCCompressedSizeOfFilesReceivedTotal :: real
  RDCNumberofFilesReceivedTotal :: real
  RDCSizeOfFilesReceivedTotal :: real
  SizeOfFilesReceivedTotal :: real
  StagingSpaceInUse :: real
  StagingBytesCleanedUpTotal :: real
  StagingBytesGeneratedTotal :: real
  StagingFilesCleanedUpTotal :: real
  StagingFilesGeneratedTotal :: real
  UpdatesDroppedTotal :: real

record PerflibDFSRVolume =
  Name :: string
  DatabaseCommitsTotal :: real
  DatabaseLookupsTotal :: real
  USNJournalRecordsReadTotal :: real
  USNJournalRecordsAcceptedTotal :: real
  USNJournalUnreadPercentage :: real

text \<open>
  \<open>unmarshalObject\<close> is not among the sources. A scrape context gives, for each of the three
  perflib objects, what \<open>unmarshalObject(ctx.perfObjects[name], &dst)\<close> yields: the error it
  returns, or the rows it stores in \<open>dst\<close>.
\<close>

record ScrapeContext =
  DFS_Replication_Connections :: "error + PerflibDFSRConnection list"
  DFS_Replicated_Folders :: "error + PerflibDFSRFolder list"
  DFS_Replication_Service_Volumes :: "error + PerflibDFSRVolume list"

subsection \<open>Child collection functions\<close>

text \<open>
  A child collection function sends samples on the channel and returns an error or nil
  (the descriptor it returns is always nil). The model gives the samples in the order they
  are sent, and the error.
\<close>

type_synonym dfsrCollectorFunc = "ScrapeContext \<Rightarrow> Metric list \<times> error option"

text \<open>The body of the loop of \<open>collectConnection\<close>: the samples of one row.\<close>

definition connection_samples :: "PerflibDFSRConnection \<Rightarrow> Metric list" where
  "connection_samples connection =
     [MustNewConstMetric ConnectionBandwidthSavingsUsingDFSReplicationTotal CounterValue (PerflibDFSRConnection.BandwidthSavingsUsingDFSReplicationTotal connection) [PerflibDFSRConnection.Name connection],
      MustNewConstMetric ConnectionBytesReceivedTotal CounterValue (PerflibDFSRConnection.BytesReceivedTotal connection) [PerflibDFSRConnection.Name connection],
      MustNewConstMetric ConnectionCompressedSizeOfFilesReceivedTotal CounterValue (PerflibDFSRConnection.CompressedSizeOfFilesReceivedTotal connection) [PerflibDFSRConnection.Name connection],
      MustNewConstMetric ConnectionFilesReceivedTotal CounterValue (PerflibDFSRConnection.FilesReceivedTotal connection) [PerflibDFSRConnection.Name connection],
      MustNewConstMetric ConnectionRDCBytesReceivedTotal CounterValue (PerflibDFSRConnection.RDCBytesReceivedTotal connection) [PerflibDFSRConnection.Name connection],
      MustNewConstMetric ConnectionRDCCompressedSizeOfFilesReceivedTotal CounterValue (PerflibDFSRConnection.RDCCompressedSizeOfFilesReceivedTotal connection) [PerflibDFSRConnection.Name connection],
      MustNewConstMetric ConnectionRDCSizeOfFilesReceivedTotal CounterValue (PerflibDFSRConnection.RDCSizeOfFilesReceivedTotal connection) [PerflibDFSRConnection.Name connection],
      MustNewConstMetric ConnectionRDCNumberofFilesReceivedTotal CounterValue (PerflibDFSRConnection.RDCNumberofFilesReceivedTotal connection) [PerflibDFSRConnection.Name connection],
      MustNewConstMetric ConnectionSizeOfFilesReceivedTotal CounterValue (PerflibDFSRConnection.SizeOfFilesReceivedTotal connection) [PerflibDFSRConnection.Name connection]]"

definition collectConnection :: dfsrCollectorFunc where
  "collectConnection ctx =
     (case DFS_Replication_Connections ctx of
        Inl err \<Rightarrow> ([], Some err)
      | Inr dst \<Rightarrow> (concat (map connection_samples dst), None))"

text \<open>The body of the loop of \<open>collectFolder\<close>: the samples of one row.\<close>

definition folder_samples :: "PerflibDFSRFolder \<Rightarrow> Metric list" where
  "folder_samples folder =
     [MustNewConstMetric FolderBandwidthSavingsUsingDFSReplicationTotal CounterValue (PerflibDFSRFolder.BandwidthSavingsUsingDFSReplicationTotal folder) [PerflibDFSRFolder.Name folder],
      MustNewConstMetric FolderCompressedSizeOfFilesReceivedTotal CounterValue (PerflibDFSRFolder.CompressedSizeOfFilesReceivedTotal folder) [PerflibDFSRFolder.Name folder],
      MustNewConstMetric FolderConflictBytesCleanedupTotal CounterValue (PerflibDFSRFolder.ConflictBytesCleanedupTotal folder) [PerflibDFSRFolder.Name folder],
      MustNewConstMetric FolderConflictBytesGeneratedTotal CounterValue (PerflibDFSRFolder.ConflictBytesGeneratedTotal folder) [PerflibDFSRFolder.Name folder],
      MustNewConstMetric FolderConflictFilesCleanedUpTotal CounterValue (PerflibDFSRFolder.ConflictFilesCleanedUpTotal folder) [PerflibDFSRFolder.Name folder],
      MustNewConstMetric FolderConflictFilesGeneratedTotal CounterValue (PerflibDFSRFolder.ConflictFilesGeneratedTotal folder) [PerflibDFSRFolder.Name folder],
      MustNewConstMetric FolderConflictFolderCleanupsCompletedTotal CounterValue (PerflibDFSRFolder.ConflictFolderCleanupsCompletedTotal folder) [PerflibDFSRFolder.Name folder],
      MustNewConstMetric FolderConflictSpaceInUse GaugeValue (PerflibDFSRFolder.ConflictSpaceInUse folder) [PerflibDFSRFolder.Name folder],
      MustNewConstMetric FolderDeletedSpaceInUse GaugeValue (PerflibDFSRFolder.DeletedSpaceInUse folder) [PerflibDFSRFolder.Name folder],
      MustNewConstMetric FolderDeletedBytesCleanedUpTotal CounterValue (PerflibDFSRFolder.DeletedBytesCleanedUpTotal folder) [PerflibDFSRFolder.Name folder],
      MustNewConstMetric FolderDeletedBytesGeneratedTotal CounterValue (PerflibDFSRFolder.DeletedBytesGeneratedTotal folder) [PerflibDFSRFolder.Name folder],
      MustNewConstMetric FolderDeletedFilesCleanedUpTotal CounterValue (PerflibDFSRFolder.DeletedFilesCleanedUpTotal folder) [PerflibDFSRFolder.Name folder],
      MustNewConstMetric FolderDeletedFilesGeneratedTotal CounterValue (PerflibDFSRFolder.DeletedFilesGeneratedTotal folder) [PerflibDFSRFolder.Name folder],
      MustNewConstMetric FolderFileInstallsRetriedTotal CounterValue (PerflibDFSRFolder.FileInstallsRetriedTotal folder) [PerflibDFSRFolder.Name folder],
      MustNewConstMetric FolderFileInstallsSucceededTotal CounterValue (PerflibDFSRFolder.FileInstallsSucceededTotal folder) [PerflibDFSRFolder.Name folder],
      MustNewConstMetric FolderFilesReceivedTotal CounterValue (PerflibDFSRFolder.FilesReceivedTotal folder) [PerflibDFSRFolder.Name folder],
      MustNewConstMetric FolderRDCBytesReceivedTotal CounterValue (PerflibDFSRFolder.RDCBytesReceivedTotal folder) [PerflibDFSRFolder.Name folder],
      MustNewConstMetric FolderRDCCompressedSizeOfFilesReceivedTotal CounterValue (PerflibDFSRFolder.RDCCompressedSizeOfFilesReceivedTotal folder) [PerflibDFSRFolder.Name folder],
      MustNewConstMetric FolderRDCNumberofFilesReceivedTotal CounterValue (PerflibDFSRFolder.RDCNumberofFilesReceivedTotal folder) [PerflibDFSRFolder.Name folder],
      MustNewConstMetric FolderRDCSizeOfFilesReceivedTotal CounterValue (PerflibDFSRFolder.RDCSizeOfFilesReceivedTotal folder) [PerflibDFSRFolder.Name folder],
      MustNewConstMetric FolderSizeOfFilesReceivedTotal CounterValue (PerflibDFSRFolder.SizeOfFilesReceivedTotal folder) [PerflibDFSRFolder.Name folder],
      MustNewConstMetric FolderStagingSpaceInUse GaugeValue (PerflibDFSRFolder.StagingSpaceInUse folder) [PerflibDFSRFolder.Name folder],
      MustNewConstMetric FolderStagingBytesCleanedUpTotal CounterValue (PerflibDFSRFolder.StagingBytesCleanedUpTotal folder) [PerflibDFSRFolder.Name folder],
      MustNewConstMetric FolderStagingBytesGeneratedTotal CounterValue (PerflibDFSRFolder.StagingBytesGeneratedTotal folder) [PerflibDFSRFolder.Name folder],
      MustNewConstMetric FolderStagingFilesCleanedUpTotal CounterValue (PerflibDFSRFolder.StagingFilesCleanedUpTotal folder) [PerflibDFSRFolder.Name folder],
      MustNewConstMetric FolderStagingFilesGeneratedTotal CounterValue (PerflibDFSRFolder.StagingFilesGeneratedTotal folder) [PerflibDFSRFolder.Name folder],
      MustNewConstMetric FolderUpdatesDroppedTotal CounterValue (PerflibDFSRFolder.UpdatesDroppedTotal folder) [PerflibDFSRFolder.Name folder]]"

definition collectFolder :: dfsrCollectorFunc where
  "collectFolder ctx =
     (case DFS_Replicated_Folders ctx of
        Inl err \<Rightarrow> ([], Some err)
      | Inr dst \<Rightarrow> (concat (map folder_samples dst), None))"

text \<open>The body of the loop of \<open>collectVolume\<close>: the samples of one row.\<close>

definition volume_samples :: "PerflibDFSRVolume \<Rightarrow> Metric list" where
  "volume_samples volume =
     [MustNewConstMetric VolumeDatabaseLookupsTotal CounterValue (PerflibDFSRVolume.DatabaseLookupsTotal volume) [PerflibDFSRVolume.Name volume],
      MustNewConstMetric VolumeDatabaseCommitsTotal CounterValue (PerflibDFSRVolume.DatabaseCommitsTotal volume) [PerflibDFSRVolume.Name volume],
      MustNewConstMetric VolumeUSNJournalRecordsAcceptedTotal CounterValue (PerflibDFSRVolume.USNJournalRecordsAcceptedTotal volume) [PerflibDFSRVolume.Name volume],
      MustNewConstMetric VolumeUSNJournalRecordsReadTotal CounterValue (PerflibDFSRVolume.USNJournalRecordsReadTotal volume) [PerflibDFSRVolume.Name volume],
      MustNewConstMetric VolumeUSNJournalUnreadPercentage GaugeValue (PerflibDFSRVolume.USNJournalUnreadPercentage volume) [PerflibDFSRVolume.Name volume]]"

definition collectVolume :: dfsrCollectorFunc where
  "collectVolume ctx =
     (case DFS_Replication_Service_Volumes ctx of
        Inl err \<Rightarrow> ([], Some err)
      | Inr dst \<Rightarrow> (concat (map volume_samples dst), None))"

subsection \<open>The collector, its child goroutines and the scheduler\<close>

text \<open>
  The two fields of \<open>DFSRCollector\<close> that are not descriptors. The Go map
  \<open>dfsrChildCollectors\<close> is a list of pairs with distinct keys, in the order in which
  \<open>range\<close> visits it; that order only numbers the goroutines. The failure counter is a Go
  \<open>int\<close>; it is an unbounded integer here, and every property below concerns counts far
  below the overflow of a machine integer.
\<close>

record DFSRCollector =
  dfsrChildCollectors :: "(string \<times> dfsrCollectorFunc) list"
  dfsrChildCollectorFailure :: int

definition getDFSRChildCollectors :: "(string \<times> dfsrCollectorFunc) list" where
  "getDFSRChildCollectors =
     [(''connection'', collectConnection), (''folder'', collectFolder), (''volume'', collectVolume)]"

text \<open>
  \<open>NewDFSRCollector\<close>: the counter field is not set by the constructor and has Go's zero value.
\<close>

definition NewDFSRCollector :: DFSRCollector where
  "NewDFSRCollector =
     \<lparr> dfsrChildCollectors = getDFSRChildCollectors, dfsrChildCollectorFailure = 0 \<rparr>"

text \<open>
  \<open>execute\<close> runs in a goroutine of its own. What it does to the state it shares with the
  other goroutines is a sequence of atomic actions: a send on the channel \<open>ch\<close>, and, for
  \<open>c.dfsrChildCollectorFailure++\<close>, a read of the counter followed by a write of the value
  read plus one (the statement is not synchronised, so another goroutine may run between
  the read and the write).
\<close>

datatype action = Send Metric | LoadFailure | StoreFailure

text \<open>
  The actions of \<open>execute(ctx, name, fn, ch, wg)\<close> in program order. \<open>since name\<close> is the
  duration that \<open>time.Since(begin)\<close> measures for this child, in seconds.
\<close>

definition execute :: "(string \<Rightarrow> real) \<Rightarrow> ScrapeContext \<Rightarrow> string \<Rightarrow> dfsrCollectorFunc \<Rightarrow> action list" where
  "execute since ctx name fn =
     (let (sent, err) = fn ctx;
          duration = since name;
          success = (if err \<noteq> None then 0 else 1)
      in map Send sent
         @ (if err \<noteq> None then [LoadFailure, StoreFailure] else [])
         @ [Send (MustNewConstMetric dfsrScrapeDurationDesc GaugeValue duration [name]),
            Send (MustNewConstMetric dfsrScrapeSuccessDesc GaugeValue success [name])])"

text \<open>
  A goroutine: the actions it has still to do, and the counter value it last read. The
  state of a run: the samples received on \<open>ch\<close> so far (oldest first), the counter
  \<open>c.dfsrChildCollectorFailure\<close>, and the goroutines. A goroutine with nothing left to do
  has called \<open>wg.Done()\<close>.
\<close>

record goroutine =
  todo :: "action list"
  loaded :: int

record run_state =
  ch :: "Metric list"
  failure :: int
  goroutines :: "goroutine list"

text \<open>Goroutine \<open>i\<close> does its next action (nothing, if it has finished or does not exist).\<close>

definition step :: "nat \<Rightarrow> run_state \<Rightarrow> run_state" where
  "step i st =
     (if i < length (goroutines st) then
        (let g = goroutines st ! i in
         case todo g of
           [] \<Rightarrow> st
         | Send m # rest \<Rightarrow>
             st\<lparr> ch := ch st @ [m], goroutines := (goroutines st)[i := g\<lparr> todo := rest \<rparr>] \<rparr>
         | LoadFailure # rest \<Rightarrow>
             st\<lparr> goroutines := (goroutines st)[i := g\<lparr> todo := rest, loaded := failure st \<rparr>] \<rparr>
         | StoreFailure # rest \<Rightarrow>
             st\<lparr> failure := loaded g + 1, goroutines := (goroutines st)[i := g\<lparr> todo := rest \<rparr>] \<rparr>)
      else st)"

fun first_unfinished :: "goroutine list \<Rightarrow> nat option" where
  "first_unfinished [] = None"
| "first_unfinished (g # gs) =
     (if todo g \<noteq> [] then Some 0 else map_option Suc (first_unfinished gs))"

definition remaining :: "run_state \<Rightarrow> nat" where
  "remaining st = sum_list (map (\<lambda>g. length (todo g)) (goroutines st))"

text \<open>
  \<open>wg.Wait()\<close> returns when every goroutine has finished. A schedule is the order in which
  the scheduler lets the goroutines act; after the schedule, the goroutines that have not
  finished run to their end one after the other. Every complete interleaving is a schedule
  after which nothing is left to run.
\<close>

function wait :: "run_state \<Rightarrow> run_state" where
  "wait st =
     (case first_unfinished (goroutines st) of
        None \<Rightarrow> st
      | Some i \<Rightarrow> wait (step i st))"
  by pat_completeness auto
termination
proof (relation "measure remaining")
  show "wf (measure remaining)" by simp
next
  fix st :: run_state and i
  assume a: "first_unfinished (goroutines st) = Some i"
  have b: "first_unfinished gs = Some k \<Longrightarrow> k < length gs \<and> todo (gs ! k) \<noteq> []" for gs k
    by (induction gs arbitrary: k) (auto split: if_splits)
  have d: "k < length xs \<Longrightarrow> v < xs ! k \<Longrightarrow> sum_list (xs[k := v]) < sum_list xs"
    for xs :: "nat list" and k v
  proof (induction xs arbitrary: k)
    case Nil
    then show ?case by simp
  next
    case (Cons a xs)
    then show ?case by (cases k) auto
  qed
  from b [OF a] have c: "i < length (goroutines st)" and e: "todo (goroutines st ! i) \<noteq> []"
    by simp_all
  then obtain x rest where f: "todo (goroutines st ! i) = x # rest"
    by (cases "todo (goroutines st ! i)") auto
  have "remaining (step i st) < remaining st"
  proof (cases x)
    case (Send m)
    with c f show ?thesis
      by (simp add: remaining_def step_def Let_def map_update d)
  next
    case LoadFailure
    with c f show ?thesis
      by (simp add: remaining_def step_def Let_def map_update d)
  next
    case StoreFailure
    with c f show ?thesis
      by (simp add: remaining_def step_def Let_def map_update d)
  qed
  then show "(step i st, st) \<in> measure remaining" by simp
qed

declare wait.simps [simp del]

text \<open>
  \<open>DFSRCollector.Collect\<close>: one goroutine for each child, \<open>wg.Wait()\<close>, then the test of the
  counter. The result is the collector as the call leaves it, the samples received on
  \<open>ch\<close>, and the error returned.
\<close>

definition Collect ::
  "DFSRCollector \<Rightarrow> (string \<Rightarrow> real) \<Rightarrow> ScrapeContext \<Rightarrow> nat list
     \<Rightarrow> DFSRCollector \<times> Metric list \<times> error option" where
  "Collect c since ctx schedule =
     (let st0 = \<lparr> ch = [], failure = dfsrChildCollectorFailure c,
                  goroutines = map (\<lambda>(name, fn). \<lparr> todo = execute since ctx name fn, loaded = 0 \<rparr>)
                                 (dfsrChildCollectors c) \<rparr>;
          st = wait (fold step schedule st0)
      in (c\<lparr> dfsrChildCollectorFailure := failure st \<rparr>, ch st,
          if failure st > 0 then Some (Err ''at least one child collector failed'') else None))"

text \<open>The samples a list of actions sends, and the children of a scrape that fail.\<close>

fun sends :: "action list \<Rightarrow> Metric list" where
  "sends [] = []"
| "sends (Send m # as) = m # sends as"
| "sends (a # as) = sends as"

definition failed_children :: "DFSRCollector \<Rightarrow> ScrapeContext \<Rightarrow> string list" where
  "failed_children c ctx = map fst (filter (\<lambda>(name, fn). snd (fn ctx) \<noteq> None) (dfsrChildCollectors c))"

text \<open>
  Three quantities of a run. \<open>pending\<close>: the samples received so far together with those the
  goroutines have still to send. \<open>nonneg\<close>: the counter and every value read from it are not
  negative. \<open>failing\<close>: the counter is positive, or some goroutine has still to write it.
\<close>

definition pending :: "run_state \<Rightarrow> Metric multiset" where
  "pending st = mset (ch st) + mset (concat (map (\<lambda>g. sends (todo g)) (goroutines st)))"

definition nonneg :: "run_state \<Rightarrow> bool" where
  "nonneg st = (0 \<le> failure st \<and> list_all (\<lambda>g. 0 \<le> loaded g) (goroutines st))"

definition failing :: "run_state \<Rightarrow> bool" where
  "failing st = (0 < failure st \<or> list_ex (\<lambda>g. StoreFailure \<in> set (todo g)) (goroutines st))"

subsection \<open>Expanding the enabled sources\<close>

text \<open>
  \<open>strings.Split(enabled, ",")\<close>: the substrings between the commas; a string without a
  comma gives the string itself, the empty string included.
\<close>

fun Split_comma :: "string \<Rightarrow> string list" where
  "Split_comma [] = [[]]"
| "Split_comma (c # cs) =
     (if c = CHR '','' then [] # Split_comma cs
      else (case Split_comma cs of
              w # ws \<Rightarrow> (c # w) # ws
            | [] \<Rightarrow> [[c]]))"

text \<open>
  A Go map is a list of pairs with distinct keys here (\<open>AList.update\<close> stores a key). The
  order in which \<open>range\<close> visits a map is not specified: \<open>order\<close> is the order that the
  run time picks, any arrangement of the keys. For a list that is no arrangement of the
  keys the model visits them as they were stored.
\<close>

definition range_keys :: "'k list \<Rightarrow> ('k \<times> 'v) list \<Rightarrow> 'k list" where
  "range_keys order m = (if mset order = mset (map fst m) then order else map fst m)"

text \<open>\<open>dfsrExpandEnabledSources\<close> (lines 92 to 105 of dfsr.go).\<close>

definition dfsrExpandEnabledSources :: "string list \<Rightarrow> string \<Rightarrow> string list" where
  "dfsrExpandEnabledSources order enabled =
     (let separated = Split_comma enabled;
          unique = fold (\<lambda>s m. if s \<noteq> [] then AList.update s True m else m) separated []
      in range_keys order unique)"


text \<open>
  For stating properties of the samples of a scrape: the samples of a list that have a given
  descriptor and the single label value \<open>name\<close>, and the two samples \<open>execute\<close> sends last.
\<close>

definition labelled :: "Desc \<Rightarrow> string \<Rightarrow> Metric list \<Rightarrow> Metric list" where
  "labelled d name ms = filter (\<lambda>m. desc m = d \<and> labelValues m = [name]) ms"

definition duration_sample :: "(string \<Rightarrow> real) \<Rightarrow> string \<Rightarrow> Metric" where
  "duration_sample since name = MustNewConstMetric dfsrScrapeDurationDesc GaugeValue (since name) [name]"

definition success_sample :: "error option \<Rightarrow> string \<Rightarrow> Metric" where
  "success_sample err name =
     MustNewConstMetric dfsrScrapeSuccessDesc GaugeValue (if err = None then 1 else 0) [name]"

section \<open>The network collector (collector/net.go)\<close>

subsection \<open>Regular expressions\<close>

text \<open>
  Go's \<open>regexp\<close> package is a library, not code of the collector. The patterns that the
  collector compiles are modelled by their syntax trees, with the constructors named after
  the operators of \<open>regexp/syntax\<close>, for the operators that the flags' defaults and the
  example of the documentation use. A string is a list of characters; \<open>.\<close> matches any
  character but a newline, \<open>^\<close> and \<open>$\<close> match at the beginning and at the end of the text
  (no flag is set).
\<close>

datatype regexp =
    EmptyMatch
  | Literal char
  | AnyCharNotNL
  | BeginText
  | EndText
  | Concat regexp regexp
  | Alternate regexp regexp
  | Star regexp
  | Plus regexp
  | Quest regexp

text \<open>
  \<open>ends r s i\<close>: the positions at which a match of \<open>r\<close> in \<open>s\<close> that starts at position \<open>i\<close>
  can end. For a repetition, \<open>star_ends f n i\<close> follows at most \<open>n\<close> rounds of \<open>f\<close>, each of
  which moves forward; \<open>length s\<close> rounds are all there can be.
\<close>

fun star_ends :: "(nat \<Rightarrow> nat list) \<Rightarrow> nat \<Rightarrow> nat \<Rightarrow> nat list" where
  "star_ends f 0 i = [i]"
| "star_ends f (Suc n) i = i # concat (map (star_ends f n) (filter (\<lambda>j. i < j) (f i)))"

primrec ends :: "regexp \<Rightarrow> string \<Rightarrow> nat \<Rightarrow> nat list" where
  "ends EmptyMatch s i = [i]"
| "ends (Literal c) s i = (if i < length s \<and> s ! i = c then [Suc i] else [])"
| "ends AnyCharNotNL s i = (if i < length s \<and> s ! i \<noteq> CHR 0x0A then [Suc i] else [])"
| "ends BeginText s i = (if i = 0 then [i] else [])"
| "ends EndText s i = (if i = length s then [i] else [])"
| "ends (Concat r1 r2) s i = concat (map (ends r2 s) (ends r1 s i))"
| "ends (Alternate r1 r2) s i = ends r1 s i @ ends r2 s i"
| "ends (Star r) s i = star_ends (ends r s) (length s) i"
| "ends (Plus r) s i = concat (map (star_ends (ends r s) (length s)) (ends r s i))"
| "ends (Quest r) s i = i # ends r s i"

text \<open>\<open>re.MatchString(s)\<close>: some substring of \<open>s\<close> matches.\<close>

definition MatchString :: "regexp \<Rightarrow> string \<Rightarrow> bool" where
  "MatchString re s = list_ex (\<lambda>i. ends re s i \<noteq> []) [0..<Suc (length s)]"

text \<open>The pattern matches the whole of \<open>s\<close>.\<close>

definition full_match :: "regexp \<Rightarrow> string \<Rightarrow> bool" where
  "full_match re s = (length s \<in> set (ends re s 0))"

text \<open>The pattern of a string of ordinary characters.\<close>

fun literal :: "string \<Rightarrow> regexp" where
  "literal [] = EmptyMatch"
| "literal [c] = Literal c"
| "literal (c # cs) = Concat (Literal c) (literal cs)"

subsection \<open>The collector\<close>

definition NetworkCollector_BytesReceivedTotal :: Desc where
  "NetworkCollector_BytesReceivedTotal = NewDesc ''net'' ''bytes_received_total''"

definition NetworkCollector_BytesSentTotal :: Desc where
  "NetworkCollector_BytesSentTotal = NewDesc ''net'' ''bytes_sent_total''"

definition NetworkCollector_BytesTotal :: Desc where
  "NetworkCollector_BytesTotal = NewDesc ''net'' ''bytes_total''"

definition NetworkCollector_PacketsOutboundDiscarded :: Desc where
  "NetworkCollector_PacketsOutboundDiscarded = NewDesc ''net'' ''packets_outbound_discarded''"

definition NetworkCollector_PacketsOutboundErrors :: Desc where
  "NetworkCollector_PacketsOutboundErrors = NewDesc ''net'' ''packets_outbound_errors''"

definition NetworkCollector_PacketsReceivedDiscarded :: Desc where
  "NetworkCollector_PacketsReceivedDiscarded = NewDesc ''net'' ''packets_received_discarded''"

definition NetworkCollector_PacketsReceivedErrors :: Desc where
  "NetworkCollector_PacketsReceivedErrors = NewDesc ''net'' ''packets_received_errors''"

definition NetworkCollector_PacketsReceivedTotal :: Desc where
  "NetworkCollector_PacketsReceivedTotal = NewDesc ''net'' ''packets_received_total''"

definition NetworkCollector_PacketsReceivedUnknown :: Desc where
  "NetworkCollector_PacketsReceivedUnknown = NewDesc ''net'' ''packets_received_unknown''"

definition NetworkCollector_PacketsTotal :: Desc where
  "NetworkCollector_PacketsTotal = NewDesc ''net'' ''packets_total''"

definition NetworkCollector_PacketsSentTotal :: Desc where
  "NetworkCollector_PacketsSentTotal = NewDesc ''net'' ''packets_sent_total''"

record Win32_PerfRawData_Tcpip_NetworkInterface =
  BytesReceivedPerSec :: uint64
  BytesSentPerSec :: uint64
  BytesTotalPerSec :: uint64
  Name :: string
  PacketsOutboundDiscarded :: uint64
  PacketsOutboundErrors :: uint64
  PacketsPerSec :: uint64
  PacketsReceivedDiscarded :: uint64
  PacketsReceivedErrors :: uint64
  PacketsReceivedPerSec :: uint64
  PacketsReceivedUnknown :: uint64
  PacketsSentPerSec :: uint64

text \<open>The two pattern fields of \<open>NetworkCollector\<close>; the descriptor fields are the constants above.\<close>

record NetworkCollector =
  nicWhitelistPattern :: regexp
  nicBlacklistPattern :: regexp

text \<open>
  \<open>NewNetworkCollector\<close> compiles \<open>"^(?:" + flag + ")$"\<close> for each of the two flags; the
  flags are given here as the syntax trees of their values.
\<close>

definition NewNetworkCollector :: "regexp \<Rightarrow> regexp \<Rightarrow> NetworkCollector" where
  "NewNetworkCollector nicWhitelist nicBlacklist =
     \<lparr> nicWhitelistPattern = Concat BeginText (Concat nicWhitelist EndText),
       nicBlacklistPattern = Concat BeginText (Concat nicBlacklist EndText) \<rparr>"

text \<open>
  \<open>mangleNetworkName\<close>: \<open>nicNameToUnderscore.ReplaceAllString(name, "_")\<close> with the pattern
  \<open>[^a-zA-Z0-9]\<close> puts an underscore for every character that is no letter and no digit.
\<close>

definition alphanumeric :: "char \<Rightarrow> bool" where
  "alphanumeric c =
     ((CHR ''a'' \<le> c \<and> c \<le> CHR ''z'') \<or> (CHR ''A'' \<le> c \<and> c \<le> CHR ''Z'')
      \<or> (CHR ''0'' \<le> c \<and> c \<le> CHR ''9''))"

definition mangleNetworkName :: "string \<Rightarrow> string" where
  "mangleNetworkName name = map (\<lambda>c. if alphanumeric c then c else CHR ''_'') name"

text \<open>The body of the loop of \<open>NetworkCollector.collect\<close>: the samples of one row.\<close>

definition nic_samples ::
  "NetworkCollector \<Rightarrow> Win32_PerfRawData_Tcpip_NetworkInterface \<Rightarrow> Metric list" where
  "nic_samples c nic =
     (if MatchString (nicBlacklistPattern c) (Win32_PerfRawData_Tcpip_NetworkInterface.Name nic)
         \<or> \<not> MatchString (nicWhitelistPattern c) (Win32_PerfRawData_Tcpip_NetworkInterface.Name nic)
      then []
      else
        (let name = mangleNetworkName (Win32_PerfRawData_Tcpip_NetworkInterface.Name nic) in
         if name = '''' then []
         else
           [MustNewConstMetric NetworkCollector_BytesReceivedTotal CounterValue (float64 (BytesReceivedPerSec nic)) [name],
            MustNewConstMetric NetworkCollector_BytesSentTotal CounterValue (float64 (BytesSentPerSec nic)) [name],
            MustNewConstMetric NetworkCollector_BytesTotal CounterValue (float64 (BytesTotalPerSec nic)) [name],
            MustNewConstMetric NetworkCollector_PacketsOutboundDiscarded CounterValue (float64 (PacketsOutboundDiscarded nic)) [name],
            MustNewConstMetric NetworkCollector_PacketsOutboundErrors CounterValue (float64 (PacketsOutboundErrors nic)) [name],
            MustNewConstMetric NetworkCollector_PacketsTotal CounterValue (float64 (PacketsPerSec nic)) [name],
            MustNewConstMetric NetworkCollector_PacketsReceivedDiscarded CounterValue (float64 (PacketsReceivedDiscarded nic)) [name],
            MustNewConstMetric NetworkCollector_PacketsReceivedErrors CounterValue (float64 (PacketsReceivedErrors nic)) [name],
            MustNewConstMetric NetworkCollector_PacketsReceivedTotal CounterValue (float64 (PacketsReceivedPerSec nic)) [name],
            MustNewConstMetric NetworkCollector_PacketsReceivedUnknown CounterValue (float64 (PacketsReceivedUnknown nic)) [name],
            MustNewConstMetric NetworkCollector_PacketsSentTotal CounterValue (float64 (PacketsSentPerSec nic)) [name]]))"


section \<open>The container collector (collector/container.go)\<close>























section \<open>Example inputs\<close>

text \<open>A network interface row with a given name and every counter zero.\<close>

definition nic_named :: "string \<Rightarrow> Win32_PerfRawData_Tcpip_NetworkInterface" where
  "nic_named name = \<lparr> BytesReceivedPerSec = 0, BytesSentPerSec = 0, BytesTotalPerSec = 0,
     Win32_PerfRawData_Tcpip_NetworkInterface.Name = name, PacketsOutboundDiscarded = 0,
     PacketsOutboundErrors = 0, PacketsPerSec = 0, PacketsReceivedDiscarded = 0,
     PacketsReceivedErrors = 0, PacketsReceivedPerSec = 0, PacketsReceivedUnknown = 0,
     PacketsSentPerSec = 0 \<rparr>"





section \<open>Properties of the SMART attribute decoder\<close>

text \<open>
  The record body panics exactly when it is entered past the end, or on an active record
  (first byte 0 or 16, second byte 0) with exactly 7 or exactly 12 bytes left: the check
  \<open>len < i+7\<close> does not cover the read at \<open>i+7\<close>, and the check \<open>len >= i+12\<close> does not
  cover the read at \<open>i+12\<close>.
\<close>

lemma smart_body_panic_iff:
  "smart_body vs i s = Inl IndexOutOfRange \<longleftrightarrow>
     i \<ge> length vs \<or>
     ((vs ! i = 0 \<or> vs ! i = 16) \<and> vs ! (i + 1) = 0 \<and> (length vs = i + 7 \<or> length vs = i + 12))"
  by (auto simp add: smart_body_def smart_raw_def byte_at_def bindp_def split: if_splits)

text \<open>The raw value of a wide attribute id, with the constants of the source evaluated.\<close>

lemma vendec_wide:
  "i3 \<in> {4, 9, 193, 195, 200, 225, 241, 242, 246} \<Longrightarrow>
   vendec i3 i8 i9 i10 i11 i12 = uint i8 + 18 * uint i9 + 20 * uint i10 + 22 * uint i11 + 24 * uint i12"
  by (auto simp add: vendec_def)

text \<open>
  C2 (the decoder never reads at or past the input length). On twelve zero bytes the
  decoder reads index 12 of a slice of length 12: the guard before the raw bytes is
  \<open>len >= i+12\<close>, which admits \<open>len = 12\<close>, and \<open>VendorSpecific[i+12]\<close> is then out of range.
\<close>

theorem smart_decode_twelve_zero_bytes_panics:
  "smart_decode [0, 0, 0, 0, 0, 0, 0, 0, 0, 0, 0, 0] = Inl IndexOutOfRange"
  by (simp add: smart_decode_def smart_body_def smart_raw_def byte_at_def bindp_def)

text \<open>The same for the read at offset 7, on seven zero bytes.\<close>

lemma smart_decode_seven_zero_bytes_panics:
  "smart_decode [0, 0, 0, 0, 0, 0, 0] = Inl IndexOutOfRange"
  by (simp add: smart_decode_def smart_body_def smart_raw_def byte_at_def bindp_def)

text \<open>
  C3 (the raw value is the little-endian integer of the bytes at offsets 8 to 12). An
  active record with id 9 (power-on hours), byte 9 equal to 1 and the other raw bytes 0
  has the little-endian value 256; the decoder computes 18, since \<open>16^2\<close> is 16 XOR 2 in Go.
\<close>

theorem smart_decode_raw_value_id9:
  "map_sum id poh (smart_decode [0, 0, 0, 9, 0, 0, 100, 100, 0, 1, 0, 0, 0]) = Inr 18"
  by (simp add: smart_decode_def smart_body_def smart_raw_def byte_at_def bindp_def vendec_def
      smart_switch_def smart_vars0_def poharg_def)

text \<open>
  C6 as stated (every record with id byte 194 and byte 45 at offset 8 gives temperature
  45) fails on a record whose second byte is not 0: the record is skipped and the
  temperature keeps its initial value 0.
\<close>

theorem smart_temperature_skipped_record:
  "map_sum id temperature (smart_decode [0, 1, 0, 194, 0, 0, 100, 100, 45, 0, 0, 0, 0]) = Inr 0"
  by (simp add: smart_decode_def smart_body_def smart_raw_def byte_at_def bindp_def
      smart_vars0_def)

text \<open>
  C6, amended: on a record whose first byte is 0 or 16, whose second byte is 0, whose id
  byte is 194, whose byte at offset 8 is 45 and whose offset 12 is inside the input, the
  loop body goes on to the next record with temperature 45; and it does so whatever is
  written over the bytes at offsets 9 to 12.
\<close>

theorem smart_temperature_single_byte:
  assumes "i + 12 < length vs" and "vs ! i = 0 \<or> vs ! i = 16" and "vs ! (i + 1) = 0"
    and "vs ! (i + 3) = 194" and "vs ! (i + 8) = 45"
  shows "map_sum id (\<lambda>(c, s'). (c, temperature s')) (smart_body vs i s) = Inr (Next, 45)
       \<and> map_sum id (\<lambda>(c, s'). (c, temperature s'))
            (smart_body (vs[i + 9 := b9, i + 10 := b10, i + 11 := b11, i + 12 := b12]) i s)
          = Inr (Next, 45)"
  using assms
  by (simp add: smart_body_def smart_raw_def byte_at_def bindp_def vendec_def smart_switch_def)

theorem smart_temperature_single_byte_witness:
  "(0::nat) + 12 < length [0, 0, 0, 194, 0, 0, 100, 100, 45, 7, 8, 9, 10 :: uint8]
   \<and> map_sum id (\<lambda>(c, s'). (c, temperature s'))
        (smart_body [0, 0, 0, 194, 0, 0, 100, 100, 45, 7, 8, 9, 10] 0 smart_vars0) = Inr (Next, 45)
   \<and> map_sum id (\<lambda>(c, s'). (c, temperature s'))
        (smart_body [0, 0, 0, 194, 0, 0, 100, 100, 45, 1, 2, 3, 4] 0 smart_vars0) = Inr (Next, 45)"
  using smart_temperature_single_byte
    [of 0 "[0, 0, 0, 194, 0, 0, 100, 100, 45, 7, 8, 9, 10]" smart_vars0 1 2 3 4]
  by simp

text \<open>
  A record with id 194 and byte 45 at offset 8 that ends exactly at the end of the input is
  not covered by the amended claim: the decoder panics on it, as on the input of C2.
\<close>

lemma smart_temperature_last_record_panics:
  "smart_decode [0, 0, 0, 194, 0, 0, 100, 100, 45, 0, 0, 0] = Inl IndexOutOfRange"
  by (simp add: smart_decode_def smart_body_def smart_raw_def byte_at_def bindp_def)

text \<open>
  C10: on a record whose first byte is 0 or 16 and whose second byte is not 0, the loop
  body leaves every variable as it was, and the loop goes on as from the next record.
  (With fewer than 7 bytes left the body leaves the loop instead; no record follows then.)
\<close>

theorem smart_second_byte_nonzero_skips:
  assumes "i + 1 < length vs" and "vs ! i = 0 \<or> vs ! i = 16" and "vs ! (i + 1) \<noteq> 0"
  shows "map_sum id snd (smart_body vs i s) = Inr s
       \<and> smart_loop vs i s = smart_loop vs (i + 12) s
       \<and> (i + 7 \<le> length vs \<longrightarrow> smart_body vs i s = Inr (Next, s))"
  using assms
  by (simp add: smart_body_def byte_at_def bindp_def)

theorem smart_second_byte_nonzero_skips_witness:
  "(0::nat) + 1 < length [16, 1, 0, 194, 0, 0, 100, 100, 45, 0, 0, 0, 0 :: uint8]
   \<and> smart_body [16, 1, 0, 194, 0, 0, 100, 100, 45, 0, 0, 0, 0] 0 smart_vars0 = Inr (Next, smart_vars0)
   \<and> smart_loop [16, 1, 0, 194, 0, 0, 100, 100, 45, 0, 0, 0, 0] 0 smart_vars0
       = smart_loop [16, 1, 0, 194, 0, 0, 100, 100, 45, 0, 0, 0, 0] 12 smart_vars0"
  using smart_second_byte_nonzero_skips
    [of 0 "[16, 1, 0, 194, 0, 0, 100, 100, 45, 0, 0, 0, 0]" smart_vars0]
  by simp

section \<open>Properties of the DFSR collector\<close>

subsection \<open>Every run of the goroutines\<close>

lemma first_unfinished_Some:
  "first_unfinished gs = Some k \<Longrightarrow> k < length gs \<and> todo (gs ! k) \<noteq> []"
  by (induction gs arbitrary: k) (auto split: if_splits)

lemma first_unfinished_None:
  "first_unfinished gs = None \<Longrightarrow> list_all (\<lambda>g. todo g = []) gs"
  by (induction gs) (auto split: if_splits)

lemma mset_concat_update:
  "i < length xs \<Longrightarrow>
   mset (concat (map f (xs[i := y]))) + mset (f (xs ! i)) = mset (concat (map f xs)) + mset (f y)"
proof (induction xs arbitrary: i)
  case Nil
  then show ?case by simp
next
  case (Cons a xs)
  then show ?case by (cases i) (auto simp add: ac_simps)
qed

lemma pending_step: "pending (step i st) = pending st"
proof (cases "i < length (goroutines st)")
  case False
  then show ?thesis by (simp add: step_def)
next
  case True
  show ?thesis
  proof (cases "todo (goroutines st ! i)")
    case Nil
    with True show ?thesis by (simp add: step_def)
  next
    case (Cons a rest)
    let ?f = "\<lambda>g. sends (todo g)"
    have u: "mset (concat (map ?f ((goroutines st)[i := y]))) + mset (?f (goroutines st ! i))
        = mset (concat (map ?f (goroutines st))) + mset (?f y)" for y
      using True by (rule mset_concat_update)
    show ?thesis
    proof (cases a)
      case (Send m)
      with True Cons u [of "(goroutines st ! i)\<lparr>todo := rest\<rparr>"] show ?thesis
        by (simp add: step_def pending_def Let_def)
    next
      case LoadFailure
      with True Cons u [of "(goroutines st ! i)\<lparr>todo := rest, loaded := failure st\<rparr>"] show ?thesis
        by (simp add: step_def pending_def Let_def)
    next
      case StoreFailure
      with True Cons u [of "(goroutines st ! i)\<lparr>todo := rest\<rparr>"] show ?thesis
        by (simp add: step_def pending_def Let_def)
    qed
  qed
qed

lemma pending_fold: "pending (fold step sched st) = pending st"
  by (induction sched arbitrary: st) (simp_all add: pending_step)

lemma pending_wait: "pending (wait st) = pending st"
proof (induction st rule: wait.induct)
  case (1 st)
  show ?case
  proof (cases "first_unfinished (goroutines st)")
    case None
    then show ?thesis by (simp add: wait.simps [of st])
  next
    case (Some i)
    with 1 show ?thesis by (simp add: wait.simps [of st] pending_step)
  qed
qed

lemma wait_finished: "list_all (\<lambda>g. todo g = []) (goroutines (wait st))"
proof (induction st rule: wait.induct)
  case (1 st)
  show ?case
  proof (cases "first_unfinished (goroutines st)")
    case None
    then show ?thesis by (simp add: wait.simps [of st] first_unfinished_None)
  next
    case (Some i)
    with 1 show ?thesis by (simp add: wait.simps [of st])
  qed
qed

lemma finished_pending:
  "list_all (\<lambda>g. todo g = []) (goroutines st) \<Longrightarrow> pending st = mset (ch st)"
proof -
  have "list_all (\<lambda>g. todo g = []) gs \<Longrightarrow> concat (map (\<lambda>g. sends (todo g)) gs) = []" for gs :: "goroutine list"
    by (induction gs) simp_all
  then show "list_all (\<lambda>g. todo g = []) (goroutines st) \<Longrightarrow> pending st = mset (ch st)"
    by (simp add: pending_def)
qed

text \<open>
  After any schedule and the wait, the samples received are those received before together
  with all that the goroutines had to send.
\<close>

lemma run_channel: "mset (ch (wait (fold step sched st))) = pending st"
  using finished_pending [OF wait_finished, of "fold step sched st"]
  by (simp add: pending_wait pending_fold)


lemma nonneg_step: "nonneg st \<Longrightarrow> nonneg (step i st)"
proof (cases "i < length (goroutines st)")
  case False
  then show "nonneg st \<Longrightarrow> nonneg (step i st)" by (simp add: step_def)
next
  case True
  assume n: "nonneg st"
  from n True have l: "0 \<le> loaded (goroutines st ! i)"
    by (simp add: nonneg_def list_all_length)
  from n have f: "0 \<le> failure st" by (simp add: nonneg_def)
  from n have a: "\<forall>j<length (goroutines st). 0 \<le> loaded (goroutines st ! j)"
    by (simp add: nonneg_def list_all_length)
  show "nonneg (step i st)"
  proof (cases "todo (goroutines st ! i)")
    case Nil
    with True n show ?thesis by (simp add: step_def)
  next
    case (Cons x rest)
    with True l f a show ?thesis
      by (cases x) (simp_all add: step_def Let_def nonneg_def list_all_length nth_list_update)
  qed
qed

lemma list_ex_update:
  "i < length gs \<Longrightarrow> P y = P (gs ! i) \<Longrightarrow> list_ex P (gs[i := y]) = list_ex P gs"
proof (induction gs arbitrary: i)
  case Nil
  then show ?case by simp
next
  case (Cons g gs)
  then show ?case by (cases i) simp_all
qed

lemma failing_step: "nonneg st \<Longrightarrow> failing (step i st) = failing st"
proof (cases "i < length (goroutines st)")
  case False
  then show "nonneg st \<Longrightarrow> failing (step i st) = failing st" by (simp add: step_def)
next
  case True
  assume n: "nonneg st"
  from n True have l: "0 \<le> loaded (goroutines st ! i)"
    by (simp add: nonneg_def list_all_length)
  let ?P = "\<lambda>g. StoreFailure \<in> set (todo g)"
  show "failing (step i st) = failing st"
  proof (cases "todo (goroutines st ! i)")
    case Nil
    with True show ?thesis by (simp add: step_def)
  next
    case (Cons x rest)
    show ?thesis
    proof (cases x)
      case (Send m)
      with Cons have "?P ((goroutines st ! i)\<lparr>todo := rest\<rparr>) = ?P (goroutines st ! i)"
        by simp
      from list_ex_update [of i "goroutines st" ?P, OF True this] True Cons Send show ?thesis
        by (simp add: step_def Let_def failing_def)
    next
      case LoadFailure
      with Cons have "?P ((goroutines st ! i)\<lparr>todo := rest, loaded := failure st\<rparr>)
          = ?P (goroutines st ! i)"
        by simp
      from list_ex_update [of i "goroutines st" ?P, OF True this] True Cons LoadFailure
      show ?thesis
        by (simp add: step_def Let_def failing_def)
    next
      case StoreFailure
      with Cons True have "list_ex ?P (goroutines st)"
        by (auto simp add: list_ex_length)
      with True Cons StoreFailure l show ?thesis
        by (simp add: step_def Let_def failing_def)
    qed
  qed
qed

lemma invariants_fold:
  "nonneg st \<Longrightarrow> nonneg (fold step sched st) \<and> failing (fold step sched st) = failing st"
  by (induction sched arbitrary: st) (simp_all add: nonneg_step failing_step)

lemma invariants_wait:
  "nonneg st \<Longrightarrow> nonneg (wait st) \<and> failing (wait st) = failing st"
proof (induction st rule: wait.induct)
  case (1 st)
  show ?case
  proof (cases "first_unfinished (goroutines st)")
    case None
    with 1 show ?thesis by (simp add: wait.simps [of st])
  next
    case (Some i)
    with 1 show ?thesis by (simp add: wait.simps [of st] nonneg_step failing_step)
  qed
qed

lemma finished_failing:
  "list_all (\<lambda>g. todo g = []) (goroutines st) \<Longrightarrow> failing st = (0 < failure st)"
  by (auto simp add: failing_def list_all_iff list_ex_iff)

text \<open>
  After any schedule and the wait, the counter is positive exactly when it was positive
  before or some goroutine had to write it (a write stores a value read earlier plus one,
  so it may lose another goroutine's write, but it never stores zero).
\<close>

lemma run_failure:
  "nonneg st \<Longrightarrow> (0 < failure (wait (fold step sched st))) = failing st"
  using finished_failing [OF wait_finished, of "fold step sched st"]
    invariants_wait [of "fold step sched st"] invariants_fold [of st sched]
  by simp

subsection \<open>The samples and the error of a scrape\<close>

lemmas dfsr_desc_defs =
  dfsrScrapeDurationDesc_def dfsrScrapeSuccessDesc_def ConnectionBandwidthSavingsUsingDFSReplicationTotal_def
  ConnectionBytesReceivedTotal_def ConnectionCompressedSizeOfFilesReceivedTotal_def ConnectionFilesReceivedTotal_def
  ConnectionRDCBytesReceivedTotal_def ConnectionRDCCompressedSizeOfFilesReceivedTotal_def ConnectionRDCNumberofFilesReceivedTotal_def
  ConnectionRDCSizeOfFilesReceivedTotal_def ConnectionSizeOfFilesReceivedTotal_def FolderBandwidthSavingsUsingDFSReplicationTotal_def
  FolderCompressedSizeOfFilesReceivedTotal_def FolderConflictBytesCleanedupTotal_def FolderConflictBytesGeneratedTotal_def
  FolderConflictFilesCleanedUpTotal_def FolderConflictFilesGeneratedTotal_def FolderConflictFolderCleanupsCompletedTotal_def
  FolderConflictSpaceInUse_def FolderDeletedSpaceInUse_def FolderDeletedBytesCleanedUpTotal_def
  FolderDeletedBytesGeneratedTotal_def FolderDeletedFilesCleanedUpTotal_def FolderDeletedFilesGeneratedTotal_def
  FolderFileInstallsRetriedTotal_def FolderFileInstallsSucceededTotal_def FolderFilesReceivedTotal_def
  FolderRDCBytesReceivedTotal_def FolderRDCCompressedSizeOfFilesReceivedTotal_def FolderRDCNumberofFilesReceivedTotal_def
  FolderRDCSizeOfFilesReceivedTotal_def FolderSizeOfFilesReceivedTotal_def FolderStagingSpaceInUse_def
  FolderStagingBytesCleanedUpTotal_def FolderStagingBytesGeneratedTotal_def FolderStagingFilesCleanedUpTotal_def
  FolderStagingFilesGeneratedTotal_def FolderUpdatesDroppedTotal_def VolumeDatabaseCommitsTotal_def
  VolumeDatabaseLookupsTotal_def VolumeUSNJournalUnreadPercentage_def VolumeUSNJournalRecordsAcceptedTotal_def
  VolumeUSNJournalRecordsReadTotal_def

lemma sends_map_Send: "sends (map Send xs @ ys) = xs @ sends ys"
  by (induction xs) simp_all

lemma sends_execute:
  "sends (execute since ctx name fn) =
     fst (fn ctx) @
     [MustNewConstMetric dfsrScrapeDurationDesc GaugeValue (since name) [name],
      MustNewConstMetric dfsrScrapeSuccessDesc GaugeValue (if snd (fn ctx) \<noteq> None then 0 else 1) [name]]"
  by (cases "fn ctx") (simp add: execute_def Let_def sends_map_Send)

lemma store_in_execute:
  "(StoreFailure \<in> set (execute since ctx name fn)) = (snd (fn ctx) \<noteq> None)"
  by (cases "fn ctx") (auto simp add: execute_def Let_def)

text \<open>
  The samples of a scrape, as a multiset: what every child sends and its two samples of
  duration and success.
\<close>

lemma Collect_channel:
  "mset (fst (snd (Collect c since ctx schedule))) =
     mset (concat (map (\<lambda>(name, fn). sends (execute since ctx name fn)) (dfsrChildCollectors c)))"
proof -
  have "concat (map (\<lambda>g. sends (todo g))
          (map (\<lambda>(name, fn). \<lparr>todo = execute since ctx name fn, loaded = 0\<rparr>) cs))
        = concat (map (\<lambda>(name, fn). sends (execute since ctx name fn)) cs)"
    for cs :: "(string \<times> dfsrCollectorFunc) list"
    by (induction cs) (simp_all split: prod.split)
  then show ?thesis
    by (simp add: Collect_def Let_def run_channel pending_def)
qed

text \<open>
  \<open>Collect\<close> returns an error exactly when the counter was positive at the start or a
  child of this scrape fails.
\<close>

lemma Collect_error_iff:
  assumes "0 \<le> dfsrChildCollectorFailure c"
  shows "(snd (snd (Collect c since ctx schedule)) \<noteq> None) =
         (0 < dfsrChildCollectorFailure c \<or> failed_children c ctx \<noteq> [])"
proof -
  let ?gs = "map (\<lambda>(name, fn). \<lparr>todo = execute since ctx name fn, loaded = 0\<rparr>) (dfsrChildCollectors c)"
  let ?st0 = "\<lparr>ch = [], failure = dfsrChildCollectorFailure c, goroutines = ?gs\<rparr>"
  have n: "nonneg ?st0"
    using assms by (simp add: nonneg_def list_all_iff split: prod.split)
  have "list_ex (\<lambda>g. StoreFailure \<in> set (todo g))
          (map (\<lambda>(name, fn). \<lparr>todo = execute since ctx name fn, loaded = 0\<rparr>) cs)
        = (filter (\<lambda>(name, fn). snd (fn ctx) \<noteq> None) cs \<noteq> [])"
    for cs :: "(string \<times> dfsrCollectorFunc) list"
    by (induction cs) (simp_all add: store_in_execute split: prod.split)
  then have f: "failing ?st0 = (0 < dfsrChildCollectorFailure c \<or> failed_children c ctx \<noteq> [])"
    by (simp add: failing_def failed_children_def)
  from run_failure [OF n, of schedule] f show ?thesis
    by (simp add: Collect_def Let_def)
qed


lemma connection_not_meta:
  "m \<in> set (fst (collectConnection ctx)) \<Longrightarrow>
   desc m \<noteq> dfsrScrapeDurationDesc \<and> desc m \<noteq> dfsrScrapeSuccessDesc"
  by (auto simp add: collectConnection_def connection_samples_def dfsr_desc_defs split: sum.splits)

lemma folder_not_meta:
  "m \<in> set (fst (collectFolder ctx)) \<Longrightarrow>
   desc m \<noteq> dfsrScrapeDurationDesc \<and> desc m \<noteq> dfsrScrapeSuccessDesc"
  by (auto simp add: collectFolder_def folder_samples_def dfsr_desc_defs split: sum.splits)

lemma volume_not_meta:
  "m \<in> set (fst (collectVolume ctx)) \<Longrightarrow>
   desc m \<noteq> dfsrScrapeDurationDesc \<and> desc m \<noteq> dfsrScrapeSuccessDesc"
  by (auto simp add: collectVolume_def volume_samples_def dfsr_desc_defs split: sum.splits)

lemma labelled_data:
  "d = dfsrScrapeDurationDesc \<or> d = dfsrScrapeSuccessDesc \<Longrightarrow>
   labelled d name (fst (collectConnection ctx)) = []
   \<and> labelled d name (fst (collectFolder ctx)) = []
   \<and> labelled d name (fst (collectVolume ctx)) = []"
  using connection_not_meta [of _ ctx] folder_not_meta [of _ ctx] volume_not_meta [of _ ctx]
  by (auto simp add: labelled_def filter_empty_conv)

lemma labelled_mset:
  "mset xs = mset ys \<Longrightarrow> labelled d name ys = [a] \<Longrightarrow> labelled d name xs = [a]"
proof -
  assume e: "mset xs = mset ys" and l: "labelled d name ys = [a]"
  have "mset (labelled d name xs) = mset (labelled d name ys)"
    using e by (simp add: labelled_def)
  with l show "labelled d name xs = [a]" by simp
qed


lemma Collect_channel_three:
  "mset (fst (snd (Collect (NewDFSRCollector\<lparr>dfsrChildCollectorFailure := n\<rparr>) since ctx schedule))) =
   mset (fst (collectConnection ctx)
         @ [duration_sample since ''connection'', success_sample (snd (collectConnection ctx)) ''connection'']
         @ fst (collectFolder ctx)
         @ [duration_sample since ''folder'', success_sample (snd (collectFolder ctx)) ''folder'']
         @ fst (collectVolume ctx)
         @ [duration_sample since ''volume'', success_sample (snd (collectVolume ctx)) ''volume''])"
  by (simp add: Collect_channel sends_execute NewDFSRCollector_def getDFSRChildCollectors_def
      duration_sample_def success_sample_def)

text \<open>
  C4: in every scrape, whatever the counter holds at its start and however the goroutines
  are scheduled, the samples received on the channel hold, for each of the three children,
  exactly one sample of the duration descriptor and exactly one of the success descriptor
  with the child's name as label value; the success sample is 1 when the child's
  collection function returned no error and 0 when it returned one.
\<close>

theorem dfsr_child_meta_samples:
  "let out = fst (snd (Collect (NewDFSRCollector\<lparr>dfsrChildCollectorFailure := n\<rparr>) since ctx schedule))
   in labelled dfsrScrapeDurationDesc ''connection'' out = [duration_sample since ''connection'']
    \<and> labelled dfsrScrapeSuccessDesc ''connection'' out
        = [success_sample (snd (collectConnection ctx)) ''connection'']
    \<and> labelled dfsrScrapeDurationDesc ''folder'' out = [duration_sample since ''folder'']
    \<and> labelled dfsrScrapeSuccessDesc ''folder'' out
        = [success_sample (snd (collectFolder ctx)) ''folder'']
    \<and> labelled dfsrScrapeDurationDesc ''volume'' out = [duration_sample since ''volume'']
    \<and> labelled dfsrScrapeSuccessDesc ''volume'' out
        = [success_sample (snd (collectVolume ctx)) ''volume'']"
proof -
  let ?out = "fst (snd (Collect (NewDFSRCollector\<lparr>dfsrChildCollectorFailure := n\<rparr>) since ctx schedule))"
  let ?ys = "fst (collectConnection ctx)
         @ [duration_sample since ''connection'', success_sample (snd (collectConnection ctx)) ''connection'']
         @ fst (collectFolder ctx)
         @ [duration_sample since ''folder'', success_sample (snd (collectFolder ctx)) ''folder'']
         @ fst (collectVolume ctx)
         @ [duration_sample since ''volume'', success_sample (snd (collectVolume ctx)) ''volume'']"
  have e: "mset ?out = mset ?ys" by (rule Collect_channel_three)
  have dd: "labelled dfsrScrapeDurationDesc name (fst (collectConnection ctx)) = []
      \<and> labelled dfsrScrapeDurationDesc name (fst (collectFolder ctx)) = []
      \<and> labelled dfsrScrapeDurationDesc name (fst (collectVolume ctx)) = []" for name
    by (rule labelled_data) simp
  have ds: "labelled dfsrScrapeSuccessDesc name (fst (collectConnection ctx)) = []
      \<and> labelled dfsrScrapeSuccessDesc name (fst (collectFolder ctx)) = []
      \<and> labelled dfsrScrapeSuccessDesc name (fst (collectVolume ctx)) = []" for name
    by (rule labelled_data) simp
  have ap: "labelled d name (xs @ zs) = labelled d name xs @ labelled d name zs" for d name xs zs
    by (simp add: labelled_def)
  have ne: "dfsrScrapeDurationDesc \<noteq> dfsrScrapeSuccessDesc"
    by (simp add: dfsrScrapeDurationDesc_def dfsrScrapeSuccessDesc_def)
  have lc: "labelled d name (x # xs)
      = (if desc x = d \<and> labelValues x = [name] then x # labelled d name xs else labelled d name xs)"
    and ln: "labelled d name [] = []" for d name x xs
    by (simp_all add: labelled_def)
  have sel: "desc (duration_sample since k) = dfsrScrapeDurationDesc"
    "labelValues (duration_sample since k) = [k]"
    "desc (success_sample err k) = dfsrScrapeSuccessDesc"
    "labelValues (success_sample err k) = [k]" for k err
    by (simp_all add: duration_sample_def success_sample_def)
  note m = lc ln sel
  have c1: "labelled dfsrScrapeDurationDesc ''connection'' ?ys = [duration_sample since ''connection'']"
    using ne ne [symmetric] by (simp add: ap dd m)
  have c2: "labelled dfsrScrapeSuccessDesc ''connection'' ?ys
      = [success_sample (snd (collectConnection ctx)) ''connection'']"
    using ne ne [symmetric] by (simp add: ap ds m)
  have f1: "labelled dfsrScrapeDurationDesc ''folder'' ?ys = [duration_sample since ''folder'']"
    using ne ne [symmetric] by (simp add: ap dd m)
  have f2: "labelled dfsrScrapeSuccessDesc ''folder'' ?ys
      = [success_sample (snd (collectFolder ctx)) ''folder'']"
    using ne ne [symmetric] by (simp add: ap ds m)
  have v1: "labelled dfsrScrapeDurationDesc ''volume'' ?ys = [duration_sample since ''volume'']"
    using ne ne [symmetric] by (simp add: ap dd m)
  have v2: "labelled dfsrScrapeSuccessDesc ''volume'' ?ys
      = [success_sample (snd (collectVolume ctx)) ''volume'']"
    using ne ne [symmetric] by (simp add: ap ds m)
  show ?thesis
    unfolding Let_def
    using labelled_mset [OF e c1] labelled_mset [OF e c2] labelled_mset [OF e f1]
      labelled_mset [OF e f2] labelled_mset [OF e v1] labelled_mset [OF e v2]
    by simp
qed

text \<open>The step of a goroutine and the wait, on a state that is written out.\<close>

lemma step_eval:
  "step i \<lparr>ch = c, failure = f, goroutines = gs\<rparr> =
     (if i < length gs then
        (case todo (gs ! i) of
           [] \<Rightarrow> \<lparr>ch = c, failure = f, goroutines = gs\<rparr>
         | Send m # rest \<Rightarrow>
             \<lparr>ch = c @ [m], failure = f, goroutines = gs[i := (gs ! i)\<lparr>todo := rest\<rparr>]\<rparr>
         | LoadFailure # rest \<Rightarrow>
             \<lparr>ch = c, failure = f, goroutines = gs[i := (gs ! i)\<lparr>todo := rest, loaded := f\<rparr>]\<rparr>
         | StoreFailure # rest \<Rightarrow>
             \<lparr>ch = c, failure = loaded (gs ! i) + 1, goroutines = gs[i := (gs ! i)\<lparr>todo := rest\<rparr>]\<rparr>)
      else \<lparr>ch = c, failure = f, goroutines = gs\<rparr>)"
  by (simp add: step_def Let_def split: list.split action.split)

lemma wait_eval:
  "wait \<lparr>ch = c, failure = f, goroutines = gs\<rparr> =
     (case first_unfinished gs of
        None \<Rightarrow> \<lparr>ch = c, failure = f, goroutines = gs\<rparr>
      | Some i \<Rightarrow> wait (step i \<lparr>ch = c, failure = f, goroutines = gs\<rparr>))"
  by (simp add: wait.simps [of "\<lparr>ch = c, failure = f, goroutines = gs\<rparr>"])

text \<open>
  On a collector whose counter is 0 at the start (the first scrape), under every schedule:
  \<open>Collect\<close> returns an error exactly when some child failed, and the samples of every child
  are among those received, each as often as the child sent it.
\<close>

lemma Collect_first_scrape:
  "(snd (snd (Collect NewDFSRCollector since ctx schedule)) \<noteq> None)
     = (failed_children NewDFSRCollector ctx \<noteq> [])
   \<and> mset (fst (collectConnection ctx) @ fst (collectFolder ctx) @ fst (collectVolume ctx))
       \<subseteq># mset (fst (snd (Collect NewDFSRCollector since ctx schedule)))"
proof -
  have a: "(snd (snd (Collect NewDFSRCollector since ctx schedule)) \<noteq> None)
     = (failed_children NewDFSRCollector ctx \<noteq> [])"
    using Collect_error_iff [of NewDFSRCollector since ctx schedule]
    by (simp add: NewDFSRCollector_def)
  have "NewDFSRCollector\<lparr>dfsrChildCollectorFailure := 0\<rparr> = NewDFSRCollector"
    by (simp add: NewDFSRCollector_def)
  with Collect_channel_three [of 0 since ctx schedule]
  have "mset (fst (snd (Collect NewDFSRCollector since ctx schedule))) =
     mset (fst (collectConnection ctx) @ fst (collectFolder ctx) @ fst (collectVolume ctx))
     + {#duration_sample since ''connection'', success_sample (snd (collectConnection ctx)) ''connection'',
         duration_sample since ''folder'', success_sample (snd (collectFolder ctx)) ''folder'',
         duration_sample since ''volume'', success_sample (snd (collectVolume ctx)) ''volume''#}"
    by simp
  then have b: "mset (fst (collectConnection ctx) @ fst (collectFolder ctx) @ fst (collectVolume ctx))
       \<subseteq># mset (fst (snd (Collect NewDFSRCollector since ctx schedule)))"
    by simp
  from a b show ?thesis by simp
qed

text \<open>
  C1 (the parent's \<open>Collect\<close> returns an error if and only if a child failed in that run).
  \<open>Collect\<close> never resets \<open>dfsrChildCollectorFailure\<close>. After a scrape in which the folder
  child failed, a scrape of the same collector in which no child fails still returns the
  error. (Both scrapes with the goroutines running one after the other.)
\<close>

theorem dfsr_stale_failure_counter:
  "let bad = \<lparr> DFS_Replication_Connections = Inr [],
               DFS_Replicated_Folders = Inl (Err ''no data''),
               DFS_Replication_Service_Volumes = Inr [] \<rparr>;
       good = \<lparr> DFS_Replication_Connections = Inr [],
                DFS_Replicated_Folders = Inr [],
                DFS_Replication_Service_Volumes = Inr [] \<rparr>;
       c1 = fst (Collect NewDFSRCollector since bad [])
   in failed_children c1 good = []
      \<and> dfsrChildCollectorFailure c1 = 1
      \<and> snd (snd (Collect c1 since good [])) = Some (Err ''at least one child collector failed'')"
  by (simp add: Collect_def NewDFSRCollector_def getDFSRChildCollectors_def execute_def
      collectConnection_def collectFolder_def collectVolume_def step_eval Let_def wait_eval
      failed_children_def)

text \<open>
  C9 (after the join the counter is the number of children that failed, with no lost
  update). Two children fail, and the schedule lets both read the counter before either
  writes it: the counter ends at 1.
\<close>

theorem dfsr_failure_counter_lost_update:
  "let ctx = \<lparr> DFS_Replication_Connections = Inl (Err ''no data''),
               DFS_Replicated_Folders = Inl (Err ''no data''),
               DFS_Replication_Service_Volumes = Inr [] \<rparr>;
       c1 = fst (Collect NewDFSRCollector since ctx [0, 1, 0, 1])
   in failed_children NewDFSRCollector ctx = [''connection'', ''folder'']
      \<and> dfsrChildCollectorFailure c1 = 1"
  by (simp add: Collect_def NewDFSRCollector_def getDFSRChildCollectors_def execute_def
      collectConnection_def collectFolder_def collectVolume_def step_eval Let_def wait_eval
      failed_children_def)

text \<open>With the same input and the goroutines running one after the other the counter ends at 2.\<close>

lemma dfsr_failure_counter_sequential:
  "let ctx = \<lparr> DFS_Replication_Connections = Inl (Err ''no data''),
               DFS_Replicated_Folders = Inl (Err ''no data''),
               DFS_Replication_Service_Volumes = Inr [] \<rparr>;
       c1 = fst (Collect NewDFSRCollector since ctx [])
   in dfsrChildCollectorFailure c1 = 2"
  by (simp add: Collect_def NewDFSRCollector_def getDFSRChildCollectors_def execute_def
      collectConnection_def collectFolder_def collectVolume_def step_eval Let_def wait_eval)

subsection \<open>Expanding the enabled sources\<close>

lemma Split_comma_nonempty: "Split_comma s \<noteq> []"
  by (induction s) (auto split: list.splits)

lemma Split_comma_append: "Split_comma (a @ CHR '','' # b) = Split_comma a @ Split_comma b"
proof (induction a)
  case Nil
  show ?case by simp
next
  case (Cons c a)
  obtain w ws where e: "Split_comma a = w # ws"
    using Split_comma_nonempty [of a] by (cases "Split_comma a") auto
  with Cons show ?case by simp
qed

lemma unique_keys:
  "distinct (map fst m) \<Longrightarrow>
   distinct (map fst (fold (\<lambda>s m. if s \<noteq> [] then AList.update s True m else m) xs m))
   \<and> set (map fst (fold (\<lambda>s m. if s \<noteq> [] then AList.update s True m else m) xs m))
       = set (map fst m) \<union> (set xs - {[]})"
proof (induction xs arbitrary: m)
  case Nil
  then show ?case by simp
next
  case (Cons x xs)
  show ?case
  proof (cases "x = []")
    case True
    with Cons show ?thesis by auto
  next
    case False
    from Cons.prems have d: "distinct (map fst (AList.update x True m))"
      by (simp add: distinct_update)
    have k: "set (map fst (AList.update x True m)) = insert x (set (map fst m))"
      by (simp add: update_keys) auto
    from Cons.IH [OF d] k False show ?thesis by auto
  qed
qed

lemma range_keys_set: "set (range_keys order m) = set (map fst m)"
proof (cases "mset order = mset (map fst m)")
  case True
  then have s: "set order = set (map fst m)" by (rule mset_eq_setD)
  from True have "range_keys order m = order" unfolding range_keys_def by (rule if_P)
  with s show ?thesis by (simp only:)
next
  case False
  then have "range_keys order m = map fst m" unfolding range_keys_def by (rule if_not_P)
  then show ?thesis by (simp only:)
qed

lemma range_keys_distinct: "distinct (map fst m) \<Longrightarrow> distinct (range_keys order m)"
proof (cases "mset order = mset (map fst m)")
  case True
  assume "distinct (map fst m)"
  with mset_eq_imp_distinct_iff [OF True] have d: "distinct order" by (simp only:)
  from True have "range_keys order m = order" unfolding range_keys_def by (rule if_P)
  with d show ?thesis by (simp only:)
next
  case False
  assume d: "distinct (map fst m)"
  from False have "range_keys order m = map fst m" unfolding range_keys_def by (rule if_not_P)
  with d show ?thesis by (simp only:)
qed

lemma expand_set: "set (dfsrExpandEnabledSources order enabled) = set (Split_comma enabled) - {[]}"
  using unique_keys [of "[]" "Split_comma enabled"]
  by (simp add: dfsrExpandEnabledSources_def Let_def range_keys_set)

lemma expand_distinct: "distinct (dfsrExpandEnabledSources order enabled)"
  using unique_keys [of "[]" "Split_comma enabled"]
  by (simp add: dfsrExpandEnabledSources_def Let_def range_keys_distinct)

text \<open>
  C7: for every input string and every order in which the map is visited, the expansion
  has no duplicates and holds exactly the non-empty substrings between the commas; the
  sources of two lists joined by a comma are the sources of the one and of the other, so
  a list joined with itself gives the same set of sources as the list.
\<close>

theorem dfsrExpandEnabledSources_idempotent:
  "distinct (dfsrExpandEnabledSources order enabled)
   \<and> set (dfsrExpandEnabledSources order enabled) = set (Split_comma enabled) - {''''}
   \<and> set (dfsrExpandEnabledSources order1 (a @ '','' @ b))
       = set (dfsrExpandEnabledSources order2 a) \<union> set (dfsrExpandEnabledSources order3 b)
   \<and> set (dfsrExpandEnabledSources order1 (enabled @ '','' @ enabled))
       = set (dfsrExpandEnabledSources order enabled)"
  by (auto simp add: expand_distinct expand_set Split_comma_append)

text \<open>For example, a source listed twice is returned once.\<close>

lemma dfsrExpandEnabledSources_volume_twice:
  "dfsrExpandEnabledSources [] ''volume,volume'' = [''volume'']
   \<and> dfsrExpandEnabledSources [] ''volume'' = [''volume'']"
  by (simp add: dfsrExpandEnabledSources_def range_keys_def)

section \<open>Properties of the network collector\<close>

text \<open>Between \<open>^(?:\<close> and \<open>)$\<close> a pattern has to match the whole string.\<close>

lemma MatchString_anchored:
  "MatchString (Concat BeginText (Concat re EndText)) s = full_match re s"
proof -
  have a: "(concat (map (ends EndText s) xs) \<noteq> []) = (length s \<in> set xs)" for xs
    by (induction xs) auto
  have b: "ends (Concat BeginText (Concat re EndText)) s i
      = (if i = 0 then concat (map (ends EndText s) (ends re s 0)) else [])" for i
    by simp
  have "MatchString (Concat BeginText (Concat re EndText)) s
      = (\<exists>i \<in> set [0..<Suc (length s)]. ends (Concat BeginText (Concat re EndText)) s i \<noteq> [])"
    unfolding MatchString_def list_ex_iff ..
  also have "\<dots> = (concat (map (ends EndText s) (ends re s 0)) \<noteq> [])"
    unfolding b by auto
  also have "\<dots> = full_match re s"
    unfolding a full_match_def ..
  finally show ?thesis .
qed

lemma mangleNetworkName_empty: "(mangleNetworkName name = []) = (name = [])"
  by (simp add: mangleNetworkName_def)

text \<open>
  C5, amended: a row is included (it contributes samples) if and only if its name matches
  the whitelist pattern in full, does not match the blacklist pattern in full, and is not
  empty. With the whitelist \<open>.+\<close> and the blacklist \<open>^Loopback$\<close> the row named Loopback is
  excluded and the row named Ethernet0 is included.
\<close>

theorem nic_included_iff:
  "(nic_samples (NewNetworkCollector w b) nic \<noteq> [])
     = (full_match w (Win32_PerfRawData_Tcpip_NetworkInterface.Name nic)
        \<and> \<not> full_match b (Win32_PerfRawData_Tcpip_NetworkInterface.Name nic)
        \<and> Win32_PerfRawData_Tcpip_NetworkInterface.Name nic \<noteq> '''')
   \<and> nic_samples (NewNetworkCollector (Plus AnyCharNotNL)
          (Concat BeginText (Concat (literal ''Loopback'') EndText))) (nic_named ''Loopback'') = []
   \<and> nic_samples (NewNetworkCollector (Plus AnyCharNotNL)
          (Concat BeginText (Concat (literal ''Loopback'') EndText))) (nic_named ''Ethernet0'') \<noteq> []"
proof -
  have a: "(nic_samples (NewNetworkCollector w b) nic \<noteq> [])
     = (full_match w (Win32_PerfRawData_Tcpip_NetworkInterface.Name nic)
        \<and> \<not> full_match b (Win32_PerfRawData_Tcpip_NetworkInterface.Name nic)
        \<and> Win32_PerfRawData_Tcpip_NetworkInterface.Name nic \<noteq> '''')" for w b nic
    by (auto simp add: nic_samples_def NewNetworkCollector_def MatchString_anchored
        mangleNetworkName_empty Let_def)
  have l: "full_match (Concat BeginText (Concat (literal ''Loopback'') EndText)) ''Loopback''"
    by (simp add: full_match_def)
  have e1: "full_match (Plus AnyCharNotNL) ''Ethernet0''"
    by (simp add: full_match_def)
  have e2: "\<not> full_match (Concat BeginText (Concat (literal ''Loopback'') EndText)) ''Ethernet0''"
    by (simp add: full_match_def)
  have b: "nic_samples (NewNetworkCollector (Plus AnyCharNotNL)
          (Concat BeginText (Concat (literal ''Loopback'') EndText))) (nic_named ''Loopback'') = []"
    using a [of "Plus AnyCharNotNL" "Concat BeginText (Concat (literal ''Loopback'') EndText)"
        "nic_named ''Loopback''"] l
    by (simp add: nic_named_def)
  have c: "nic_samples (NewNetworkCollector (Plus AnyCharNotNL)
          (Concat BeginText (Concat (literal ''Loopback'') EndText))) (nic_named ''Ethernet0'') \<noteq> []"
    using a [of "Plus AnyCharNotNL" "Concat BeginText (Concat (literal ''Loopback'') EndText)"
        "nic_named ''Ethernet0''"] e1 e2
    by (simp add: nic_named_def)
  from a b c show ?thesis by simp
qed

text \<open>
  C5 as stated fails on a row with the empty name when the whitelist matches the empty
  string (here \<open>.*\<close>) and the blacklist does not (here \<open>Loopback\<close>): the name matches the
  whitelist in full and not the blacklist, and the row is excluded by the test
  \<open>name == ""\<close> that follows \<open>mangleNetworkName\<close>.
\<close>

theorem nic_empty_name_excluded:
  "full_match (Star AnyCharNotNL) (Win32_PerfRawData_Tcpip_NetworkInterface.Name (nic_named ''''))
   \<and> \<not> full_match (literal ''Loopback'') (Win32_PerfRawData_Tcpip_NetworkInterface.Name (nic_named ''''))
   \<and> nic_samples (NewNetworkCollector (Star AnyCharNotNL) (literal ''Loopback'')) (nic_named '''') = []"
  by (simp add: nic_named_def full_match_def nic_samples_def NewNetworkCollector_def
      MatchString_def mangleNetworkName_def)


section \<open>Collect operations with nothing to report\<close>










end
